theory Spec2Isabelle
  imports Complex_Main "HOL-Library.AList" "HOL-Library.Sublist" "HOL-Library.Log_Nat"
begin

section \<open>Python values, dictionaries and exceptions\<close>

text \<open>
  The loosely typed values that travel through the models and the HTTP client (JSON documents,
  criterion specifications) are a tagged union. A Python \<open>dict\<close> keeps insertion order, so it
  is an association list; \<open>d[k] = v\<close> is \<open>AList.update k v d\<close> and \<open>k in d\<close> is
  \<open>dict_contains d k\<close>.
\<close>

datatype py_value =
    PNone
  | PBool bool
  | PInt int
  | PFloat rat
  | PStr string
  | PList "py_value list"
  | PDict "(string \<times> py_value) list"

type_synonym ('k, 'v) dict = "('k \<times> 'v) list"

definition dict_contains :: "('k, 'v) dict \<Rightarrow> 'k \<Rightarrow> bool" where
  "dict_contains d k = (map_of d k \<noteq> None)"

text \<open>
  The exception classes of \<open>core/exceptions.py\<close>, followed by the classes of the libraries
  and of the language that the code can meet. An exception value carries its class and the
  text that \<open>str(e)\<close> returns. All classes here derive from \<open>Exception\<close>.
\<close>

datatype exc_class =
    ArchonAgentTesterError
  | ConfigurationError
  | ArchonAPIError
  | OpenRouterAPIError
  | TestCaseNotFoundError
  | TestSuiteNotFoundError
  | AgentNotFoundError
  | TestExecutionError
  | EvaluationError
  | ReportGenerationError
  | ValidationError
  | ValueError
  | KeyError
  | TypeError
  | NameError
  | OtherException string

datatype exn = Exn (exn_class: exc_class) (exn_str: string)

text \<open>\<open>isinstance(e, ArchonAgentTesterError)\<close>: the base class and its nine subclasses.\<close>

fun is_ArchonAgentTesterError :: "exc_class \<Rightarrow> bool" where
  "is_ArchonAgentTesterError ArchonAgentTesterError = True"
| "is_ArchonAgentTesterError ConfigurationError = True"
| "is_ArchonAgentTesterError ArchonAPIError = True"
| "is_ArchonAgentTesterError OpenRouterAPIError = True"
| "is_ArchonAgentTesterError TestCaseNotFoundError = True"
| "is_ArchonAgentTesterError TestSuiteNotFoundError = True"
| "is_ArchonAgentTesterError AgentNotFoundError = True"
| "is_ArchonAgentTesterError TestExecutionError = True"
| "is_ArchonAgentTesterError EvaluationError = True"
| "is_ArchonAgentTesterError ReportGenerationError = True"
| "is_ArchonAgentTesterError _ = False"

definition newline :: string where
  "newline = [CHR 0x0A]"

definition quote :: string where
  "quote = [CHR 0x27]"

text \<open>\<open>str(n)\<close> for an integer: its decimal digits.\<close>

definition digit_char :: "nat \<Rightarrow> char" where
  "digit_char n = char_of (48 + n)"

fun str_nat :: "nat \<Rightarrow> string" where
  "str_nat n = (if n < 10 then [digit_char n] else str_nat (n div 10) @ [digit_char (n mod 10)])"

definition str_int :: "int \<Rightarrow> string" where
  "str_int i = (if i < 0 then ''-'' @ str_nat (nat (- i)) else str_nat (nat i))"

section \<open>Domain model (core/models.py)\<close>

datatype TestStatus = PENDING | RUNNING | PASSED | FAILED | ERROR | SKIPPED

datatype TestType = FUNCTIONAL | PERFORMANCE | RELIABILITY | SAFETY | CUSTOM

fun TestType_value :: "TestType \<Rightarrow> string" where
  "TestType_value FUNCTIONAL = ''functional''"
| "TestType_value PERFORMANCE = ''performance''"
| "TestType_value RELIABILITY = ''reliability''"
| "TestType_value SAFETY = ''safety''"
| "TestType_value CUSTOM = ''custom''"

text \<open>\<open>TestType(s)\<close>: the member whose value is \<open>s\<close>, or a \<open>ValueError\<close>.\<close>

definition TestType_of_value :: "string \<Rightarrow> exn + TestType" where
  "TestType_of_value s =
     (if s = ''functional'' then Inr FUNCTIONAL
      else if s = ''performance'' then Inr PERFORMANCE
      else if s = ''reliability'' then Inr RELIABILITY
      else if s = ''safety'' then Inr SAFETY
      else if s = ''custom'' then Inr CUSTOM
      else Inl (Exn ValueError (quote @ s @ quote @ '' is not a valid TestType'')))"

text \<open>
  A \<open>datetime\<close> is a point on the naive time line, counted in microseconds (the resolution
  of Python's \<open>datetime\<close>); the difference of two of them is a \<open>timedelta\<close>, again in
  microseconds.
\<close>

type_synonym datetime = int

subsection \<open>Field validation\<close>

text \<open>
  The models are pydantic models (version 1: \<open>core/config.py\<close> imports \<open>BaseSettings\<close>
  from \<open>pydantic\<close>). A constructor validates every field that is given against its
  annotation, in the order of declaration, collects the errors of all fields and raises one
  \<open>ValidationError\<close> when there are any. A keyword argument with a default is either left
  out (\<open>Omitted\<close>) or given (\<open>Given\<close>); where \<open>None\<close> can be given for it, the given
  value is an option.
\<close>

datatype 'a arg = Omitted | Given 'a

text \<open>
  An error of a field: its location (the field, then the key of a mapping and the index in a
  list, as text), its message and its type. \<open>str(e)\<close> of the \<open>ValidationError\<close> counts
  the errors, names the model and displays each error on two lines.
\<close>

datatype verror = VError (err_loc: "string list") (err_msg: string) (err_type: string)

definition none_not_allowed :: "string list \<Rightarrow> verror" where
  "none_not_allowed loc =
     VError loc ''none is not an allowed value'' ''type_error.none.not_allowed''"

definition str_error :: "string list \<Rightarrow> verror" where
  "str_error loc = VError loc ''str type expected'' ''type_error.str''"

definition float_error :: "string list \<Rightarrow> verror" where
  "float_error loc = VError loc ''value is not a valid float'' ''type_error.float''"

definition list_error :: "string list \<Rightarrow> verror" where
  "list_error loc = VError loc ''value is not a valid list'' ''type_error.list''"

definition dict_error :: "string list \<Rightarrow> verror" where
  "dict_error loc = VError loc ''value is not a valid dict'' ''type_error.dict''"

fun str_join :: "string \<Rightarrow> string list \<Rightarrow> string" where
  "str_join sep [] = []"
| "str_join sep [x] = x"
| "str_join sep (x # y # ys) = x @ sep @ str_join sep (y # ys)"

definition display_error :: "verror \<Rightarrow> string" where
  "display_error e =
     str_join '' -> '' (err_loc e) @ newline @ ''  '' @ err_msg e @
     '' (type='' @ err_type e @ '')''"

definition validation_error :: "string \<Rightarrow> verror list \<Rightarrow> exn" where
  "validation_error model errs =
     Exn ValidationError
       (str_nat (length errs) @ '' validation error'' @
        (if length errs = 1 then [] else ''s'') @ '' for '' @ model @ newline @
        str_join newline (map display_error errs))"

text \<open>
  A field annotated with the bare \<open>Dict\<close> holds a dict with keys and values of any kind.
  Its keys are hashable (no list, no dict) and are compared as Python compares them:
  numbers by their value (\<open>True == 1 == 1.0\<close>), everything else structurally.
  \<open>d[k] = v\<close> keeps the position and the key of an entry that is already there.
\<close>

type_synonym any_dict = "(py_value \<times> py_value) list"

definition hashable :: "py_value \<Rightarrow> bool" where
  "hashable v = (case v of PList xs \<Rightarrow> False | PDict d \<Rightarrow> False | _ \<Rightarrow> True)"

definition key_number :: "py_value \<Rightarrow> rat option" where
  "key_number v =
     (case v of
        PBool b \<Rightarrow> Some (if b then 1 else 0)
      | PInt i \<Rightarrow> Some (of_int i)
      | PFloat q \<Rightarrow> Some q
      | _ \<Rightarrow> None)"

definition key_eq :: "py_value \<Rightarrow> py_value \<Rightarrow> bool" where
  "key_eq a b =
     (case (key_number a, key_number b) of
        (Some x, Some y) \<Rightarrow> x = y
      | (None, None) \<Rightarrow> a = b
      | _ \<Rightarrow> False)"

fun dict_setitem :: "py_value \<Rightarrow> py_value \<Rightarrow> any_dict \<Rightarrow> any_dict" where
  "dict_setitem k v [] = [(k, v)]"
| "dict_setitem k v ((k1, v1) # d) =
     (if key_eq k1 k then (k1, v) # d else (k1, v1) # dict_setitem k v d)"

text \<open>The dict that an association list with text keys stands for.\<close>

definition py_dict :: "(string, py_value) dict \<Rightarrow> any_dict" where
  "py_dict d = fold (\<lambda>(k, v) acc. dict_setitem (PStr k) v acc) d []"

text \<open>
  \<open>dict(xs)\<close> on a list: every element has to be an iterable of exactly two items, a key
  that is hashable and a value. Among the values here these are a list of two elements, a
  text of two characters and a dict with two keys (iterating a dict gives its keys).
  \<open>None\<close> is the \<open>TypeError\<close> or \<open>ValueError\<close> that \<open>dict\<close> raises otherwise.
\<close>

definition pair_of :: "py_value \<Rightarrow> (py_value \<times> py_value) option" where
  "pair_of x =
     (case x of
        PList [a, b] \<Rightarrow> Some (a, b)
      | PStr [c, d] \<Rightarrow> Some (PStr [c], PStr [d])
      | PDict d \<Rightarrow> (case map fst (py_dict d) of [k1, k2] \<Rightarrow> Some (k1, k2) | _ \<Rightarrow> None)
      | _ \<Rightarrow> None)"

fun dict_of_list :: "py_value list \<Rightarrow> any_dict \<Rightarrow> any_dict option" where
  "dict_of_list [] acc = Some acc"
| "dict_of_list (x # xs) acc =
     (case pair_of x of
        None \<Rightarrow> None
      | Some (k, v) \<Rightarrow> if hashable k then dict_of_list xs (dict_setitem k v acc) else None)"

text \<open>
  The validators of pydantic for \<open>str\<close> and for \<open>dict\<close>; \<open>None\<close> is their
  \<open>StrError\<close> or \<open>DictError\<close>. A number is accepted as a text and becomes \<open>str(v)\<close>
  (\<open>bool\<close> is a subclass of \<open>int\<close>); \<open>float_str\<close> is \<open>str\<close> on a float. A value that
  is not a dict is accepted as a dict when \<open>dict(v)\<close> returns.
\<close>

definition str_validator :: "(rat \<Rightarrow> string) \<Rightarrow> py_value \<Rightarrow> string option" where
  "str_validator float_str v =
     (case v of
        PStr s \<Rightarrow> Some s
      | PFloat q \<Rightarrow> Some (float_str q)
      | PInt i \<Rightarrow> Some (str_int i)
      | PBool b \<Rightarrow> Some (if b then ''True'' else ''False'')
      | _ \<Rightarrow> None)"

definition dict_validator :: "py_value \<Rightarrow> any_dict option" where
  "dict_validator v =
     (case v of
        PDict d \<Rightarrow> Some (py_dict d)
      | PList xs \<Rightarrow> dict_of_list xs []
      | PStr s \<Rightarrow> (if s = [] then Some [] else None)
      | _ \<Rightarrow> None)"

text \<open>
  The items of a \<open>List[str]\<close>: each goes through the validator for \<open>str\<close>, an error
  carries the index of its item.
\<close>

fun str_items ::
  "(rat \<Rightarrow> string) \<Rightarrow> string list \<Rightarrow> nat \<Rightarrow> py_value list \<Rightarrow> verror list \<times> string list" where
  "str_items float_str loc i [] = ([], [])"
| "str_items float_str loc i (x # xs) =
     (case str_items float_str loc (Suc i) xs of
        (errs, ss) \<Rightarrow>
          (case str_validator float_str x of
             None \<Rightarrow> (str_error (loc @ [str_nat i]) # errs, ss)
           | Some s \<Rightarrow> (errs, s # ss)))"

text \<open>
  What the annotations \<open>Union[str, float, Dict]\<close> and \<open>Union[str, List[str], Dict]\<close>
  admit as a validated value.
\<close>

datatype criterion = CritStr string | CritFloat rat | CritDict any_dict

datatype input_value = InStr string | InList "string list" | InDict any_dict

text \<open>
  A value of a \<open>Union\<close> is tried against the members in their order, and the first that
  accepts it gives the result; when none does, the errors of all members are reported.
  No member admits \<open>None\<close>. For \<open>Union[str, float, Dict]\<close>: whatever \<open>str\<close> rejects is a
  list or a dict, on which \<open>float(v)\<close> raises \<open>TypeError\<close>, so that \<open>Dict\<close> decides.
\<close>

definition validate_criterion ::
  "(rat \<Rightarrow> string) \<Rightarrow> string list \<Rightarrow> py_value \<Rightarrow> verror list + criterion" where
  "validate_criterion float_str loc v =
     (if v = PNone then Inl [none_not_allowed loc, none_not_allowed loc, none_not_allowed loc]
      else
        (case str_validator float_str v of
           Some s \<Rightarrow> Inr (CritStr s)
         | None \<Rightarrow>
             (case dict_validator v of
                Some d \<Rightarrow> Inr (CritDict d)
              | None \<Rightarrow> Inl [str_error loc, float_error loc, dict_error loc])))"

text \<open>
  For \<open>Union[str, List[str], Dict]\<close>: a list is a \<open>List[str]\<close> when all its items are
  accepted as texts, else \<open>Dict\<close> decides; a dict is not a list.
\<close>

definition validate_str_list ::
  "(rat \<Rightarrow> string) \<Rightarrow> string list \<Rightarrow> py_value \<Rightarrow> verror list + string list" where
  "validate_str_list float_str loc v =
     (case v of
        PList xs \<Rightarrow>
          (case str_items float_str loc 0 xs of
             (errs, ss) \<Rightarrow> if errs = [] then Inr ss else Inl errs)
      | _ \<Rightarrow> Inl [list_error loc])"

definition validate_input ::
  "(rat \<Rightarrow> string) \<Rightarrow> string list \<Rightarrow> py_value \<Rightarrow> verror list + input_value" where
  "validate_input float_str loc v =
     (if v = PNone then Inl [none_not_allowed loc, none_not_allowed loc, none_not_allowed loc]
      else
        (case str_validator float_str v of
           Some s \<Rightarrow> Inr (InStr s)
         | None \<Rightarrow>
             (case validate_str_list float_str loc v of
                Inr ss \<Rightarrow> Inr (InList ss)
              | Inl list_errs \<Rightarrow>
                  (case dict_validator v of
                     Some d \<Rightarrow> Inr (InDict d)
                   | None \<Rightarrow> Inl (str_error loc # list_errs @ [dict_error loc])))))"

text \<open>
  A field \<open>Dict[str, T]\<close>: the loop over the items of the dict given, which validates each
  value against \<open>T\<close> at the location of its key, collects the errors of the values that
  fail and stores the others into a new dict.
\<close>

fun validate_items ::
  "(string list \<Rightarrow> py_value \<Rightarrow> verror list + 'a) \<Rightarrow> string \<Rightarrow> (string, py_value) dict \<Rightarrow>
   verror list list \<Rightarrow> (string, 'a) dict \<Rightarrow> verror list list \<times> (string, 'a) dict" where
  "validate_items vf field [] errors result = (errors, result)"
| "validate_items vf field ((k, v) # items) errors result =
     (case vf [field, k] v of
        Inl value_errors \<Rightarrow> validate_items vf field items (errors @ [value_errors]) result
      | Inr x \<Rightarrow> validate_items vf field items errors (AList.update k x result))"

definition validate_mapping ::
  "(string list \<Rightarrow> py_value \<Rightarrow> verror list + 'a) \<Rightarrow> string \<Rightarrow> (string, py_value) dict \<Rightarrow>
   verror list + (string, 'a) dict" where
  "validate_mapping vf field d =
     (case validate_items vf field d [] [] of
        (errors, result) \<Rightarrow> if errors = [] then Inr result else Inl (concat errors))"

subsection \<open>TestCase\<close>

record TestCase =
  tc_id :: string
  tc_name :: string
  tc_description :: string
  tc_test_type :: TestType
  tc_inputs :: "(string, input_value) dict"
  tc_expected_outputs :: "(string, input_value) dict option"
  tc_evaluation_criteria :: "(string, criterion) dict"
  tc_tags :: "string list"
  tc_timeout :: int

text \<open>
  The validator of \<open>evaluation_criteria\<close>, called with the validated value of the field:
  \<open>not v\<close> on a dict is emptiness.
\<close>

definition validate_criteria :: "(string, criterion) dict \<Rightarrow> exn + (string, criterion) dict" where
  "validate_criteria v =
     (if v = [] then Inl (Exn ValueError ''At least one evaluation criterion must be provided'')
      else Inr v)"

text \<open>
  The fields of \<open>TestCase\<close> whose values are not fixed by the types of the arguments here:
  \<open>inputs\<close> and \<open>expected_outputs\<close> (the latter optional), \<open>evaluation_criteria\<close> (the
  validator runs when the type of the field has been accepted, and its \<open>ValueError\<close> is one
  more error of the field), \<open>tags\<close> and \<open>timeout\<close> (their default when left out,
  \<open>None\<close> is not allowed).
\<close>

definition field_inputs ::
  "(rat \<Rightarrow> string) \<Rightarrow> (string, py_value) dict \<Rightarrow> verror list + (string, input_value) dict" where
  "field_inputs float_str v = validate_mapping (validate_input float_str) ''inputs'' v"

definition field_expected_outputs ::
  "(rat \<Rightarrow> string) \<Rightarrow> (string, py_value) dict option \<Rightarrow>
   verror list + (string, input_value) dict option" where
  "field_expected_outputs float_str v =
     (case v of
        None \<Rightarrow> Inr None
      | Some d \<Rightarrow>
          (case validate_mapping (validate_input float_str) ''expected_outputs'' d of
             Inl errs \<Rightarrow> Inl errs
           | Inr r \<Rightarrow> Inr (Some r)))"

definition field_evaluation_criteria ::
  "(rat \<Rightarrow> string) \<Rightarrow> (string, py_value) dict \<Rightarrow> verror list + (string, criterion) dict" where
  "field_evaluation_criteria float_str v =
     (case validate_mapping (validate_criterion float_str) ''evaluation_criteria'' v of
        Inl errs \<Rightarrow> Inl errs
      | Inr r \<Rightarrow>
          (case validate_criteria r of
             Inl e \<Rightarrow> Inl [VError [''evaluation_criteria''] (exn_str e) ''value_error'']
           | Inr r1 \<Rightarrow> Inr r1))"

definition field_tags :: "string list option arg \<Rightarrow> verror list + string list" where
  "field_tags v =
     (case v of
        Omitted \<Rightarrow> Inr []
      | Given None \<Rightarrow> Inl [none_not_allowed [''tags'']]
      | Given (Some t) \<Rightarrow> Inr t)"

definition field_timeout :: "int option arg \<Rightarrow> verror list + int" where
  "field_timeout v =
     (case v of
        Omitted \<Rightarrow> Inr 30
      | Given None \<Rightarrow> Inl [none_not_allowed [''timeout'']]
      | Given (Some t) \<Rightarrow> Inr t)"

definition errors_of :: "verror list + 'a \<Rightarrow> verror list" where
  "errors_of r = (case r of Inl errs \<Rightarrow> errs | Inr v \<Rightarrow> [])"

text \<open>
  \<open>TestCase(...)\<close>. The identifier, the name, the description and the test type are typed
  arguments, which the constructor stores as they are.
\<close>

definition TestCase_new ::
  "(rat \<Rightarrow> string) \<Rightarrow> string \<Rightarrow> string \<Rightarrow> string \<Rightarrow> TestType \<Rightarrow> (string, py_value) dict \<Rightarrow>
   (string, py_value) dict option \<Rightarrow> (string, py_value) dict \<Rightarrow> string list option arg \<Rightarrow>
   int option arg \<Rightarrow> exn + TestCase" where
  "TestCase_new float_str ident name description test_type inputs expected_outputs
     evaluation_criteria tags timeout =
     (case (field_inputs float_str inputs,
            field_expected_outputs float_str expected_outputs,
            field_evaluation_criteria float_str evaluation_criteria,
            field_tags tags,
            field_timeout timeout) of
        (Inr i, Inr e, Inr c, Inr t, Inr tm) \<Rightarrow>
          Inr \<lparr> tc_id = ident, tc_name = name, tc_description = description,
                tc_test_type = test_type, tc_inputs = i, tc_expected_outputs = e,
                tc_evaluation_criteria = c, tc_tags = t, tc_timeout = tm \<rparr>
      | (ri, re, rc, rt, rtm) \<Rightarrow>
          Inl (validation_error ''TestCase''
                 (errors_of ri @ errors_of re @ errors_of rc @ errors_of rt @ errors_of rtm)))"

subsection \<open>TestResult\<close>

text \<open>
  \<open>(end - start).total_seconds() * 1000\<close> is computed in binary64 floating point. A float is
  the rational it denotes; \<open>to_double\<close> rounds a rational to the nearest float with a 53-bit
  significand, ties to even (the magnitudes of a \<open>timedelta\<close> are far from overflow and
  from the subnormal range, which are left out). \<open>binade q\<close> is the exponent \<open>e\<close> with
  \<open>2 ^ e \<le> q < 2 ^ (e + 1)\<close> for a positive \<open>q\<close>.
\<close>

definition round_half_even :: "rat \<Rightarrow> int" where
  "round_half_even q =
     (let f = \<lfloor>q\<rfloor>; d = q - of_int f
      in if d < 1 / 2 then f else if 1 / 2 < d then f + 1 else if even f then f else f + 1)"

definition binade :: "rat \<Rightarrow> int" where
  "binade q =
     (let k = bitlen (fst (quotient_of q)) - bitlen (snd (quotient_of q))
      in if 2 powi k \<le> q then k else k - 1)"

definition to_double :: "rat \<Rightarrow> rat" where
  "to_double q =
     (if q = 0 then 0
      else let e = binade \<bar>q\<bar> - 52
           in sgn q * of_int (round_half_even (\<bar>q\<bar> / 2 powi e)) * 2 powi e)"

text \<open>\<open>timedelta.total_seconds()\<close>: the microseconds divided by \<open>10**6\<close>, as a float.\<close>

definition total_seconds :: "int \<Rightarrow> rat" where
  "total_seconds us = to_double (of_int us / 10 ^ 6)"

text \<open>\<open>int(x)\<close> on a float truncates toward zero; \<open>round(x)\<close> rounds half to even.\<close>

definition py_int :: "rat \<Rightarrow> int" where
  "py_int x = (if 0 \<le> x then \<lfloor>x\<rfloor> else \<lceil>x\<rceil>)"

definition py_round :: "rat \<Rightarrow> int" where
  "py_round x = round_half_even x"

text \<open>\<open>(end - start).total_seconds() * 1000\<close>, the float that both are applied to.\<close>

definition elapsed_ms :: "datetime \<Rightarrow> datetime \<Rightarrow> rat" where
  "elapsed_ms start end = to_double (total_seconds (end - start) * 1000)"

record TestResult =
  res_test_case_id :: string
  res_agent_id :: string
  res_status :: TestStatus
  res_start_time :: datetime
  res_end_time :: "datetime option"
  res_duration_ms :: "int option"
  res_inputs :: "(string, py_value) dict"
  res_actual_outputs :: "(string, py_value) dict option"
  res_metrics :: "(string, rat) dict"
  res_errors :: "string list"
  res_logs :: "string list"

text \<open>
  The validator of \<open>end_time\<close>; \<open>now\<close> is what \<open>datetime.now()\<close> reads when the
  constructor runs.
\<close>

definition set_end_time :: "datetime \<Rightarrow> datetime option \<Rightarrow> TestStatus \<Rightarrow> datetime option" where
  "set_end_time now v status =
     (if v = None \<and> status \<notin> set [PENDING, RUNNING] then Some now else v)"

text \<open>
  The validator of \<open>duration_ms\<close>, which runs after \<open>start_time\<close> and \<open>end_time\<close> have
  their validated values. A \<open>datetime\<close> is always truthy, so the test on \<open>end_time\<close> is the
  test for \<open>None\<close>.
\<close>

definition calculate_duration :: "int option \<Rightarrow> datetime \<Rightarrow> datetime option \<Rightarrow> int option" where
  "calculate_duration v start end_time =
     (case v of
        Some d \<Rightarrow> v
      | None \<Rightarrow>
          (case end_time of
             None \<Rightarrow> v
           | Some end \<Rightarrow> Some (py_int (elapsed_ms start end))))"

definition TestResult_new ::
  "datetime \<Rightarrow> string \<Rightarrow> string \<Rightarrow> TestStatus \<Rightarrow> datetime \<Rightarrow> datetime option \<Rightarrow>
   int option \<Rightarrow> (string, py_value) dict \<Rightarrow> (string, py_value) dict option \<Rightarrow>
   (string, rat) dict option \<Rightarrow> string list option \<Rightarrow> string list option \<Rightarrow> TestResult" where
  "TestResult_new now test_case_id agent_id status start_time end_time duration_ms inputs
     actual_outputs metrics errors logs =
     (let e = set_end_time now end_time status;
          d = calculate_duration duration_ms start_time e
      in \<lparr> res_test_case_id = test_case_id, res_agent_id = agent_id, res_status = status,
            res_start_time = start_time, res_end_time = e, res_duration_ms = d,
            res_inputs = inputs, res_actual_outputs = actual_outputs,
            res_metrics = (case metrics of None \<Rightarrow> [] | Some m \<Rightarrow> m),
            res_errors = (case errors of None \<Rightarrow> [] | Some x \<Rightarrow> x),
            res_logs = (case logs of None \<Rightarrow> [] | Some x \<Rightarrow> x) \<rparr>)"

subsection \<open>TestSuite\<close>

record TestSuite =
  suite_id :: string
  suite_name :: string
  suite_description :: string
  suite_test_cases :: "string list"
  suite_tags :: "string list"
  suite_created_at :: datetime
  suite_updated_at :: datetime

subsection \<open>TestRun\<close>

record TestRun =
  run_id :: string
  run_agent_id :: string
  run_test_suite_id :: string
  run_status :: TestStatus
  run_start_time :: datetime
  run_end_time :: "datetime option"
  run_results :: "string list"
  run_summary :: "(string, int) dict"

text \<open>
  The validator of \<open>summary\<close> runs always, after \<open>results\<close> has been validated: \<open>v\<close> is
  the summary given (the empty dict when none was), \<open>results\<close> is \<open>values.get("results")\<close>.
\<close>

definition calculate_summary :: "(string, int) dict \<Rightarrow> string list \<Rightarrow> (string, int) dict" where
  "calculate_summary v results =
     (if v = [] \<and> results \<noteq> [] then
        [(''total'', int (length results)),
         (''pending'', 0),
         (''passed'', 0),
         (''failed'', 0),
         (''error'', 0),
         (''skipped'', 0)]
      else v)"

definition TestRun_new ::
  "string \<Rightarrow> string \<Rightarrow> string \<Rightarrow> TestStatus \<Rightarrow> datetime \<Rightarrow> datetime option \<Rightarrow>
   string list option \<Rightarrow> (string, int) dict option \<Rightarrow> TestRun" where
  "TestRun_new ident agent_id test_suite_id status start_time end_time results summary =
     (let rs = (case results of None \<Rightarrow> [] | Some r \<Rightarrow> r);
          v = (case summary of None \<Rightarrow> [] | Some s \<Rightarrow> s)
      in \<lparr> run_id = ident, run_agent_id = agent_id, run_test_suite_id = test_suite_id,
            run_status = status, run_start_time = start_time, run_end_time = end_time,
            run_results = rs, run_summary = calculate_summary v rs \<rparr>)"

text \<open>
  \<open>summary[k]\<close> for each of the five status names, added up; \<open>None\<close> when one of the keys
  is missing (the subscript raises \<open>KeyError\<close> there).
\<close>

definition status_names :: "string list" where
  "status_names = [''pending'', ''passed'', ''failed'', ''error'', ''skipped'']"

fun sum_counts :: "(string, int) dict \<Rightarrow> string list \<Rightarrow> int option" where
  "sum_counts d [] = Some 0"
| "sum_counts d (k # ks) =
     (case map_of d k of
        None \<Rightarrow> None
      | Some c \<Rightarrow> (case sum_counts d ks of None \<Rightarrow> None | Some s \<Rightarrow> Some (c + s)))"

section \<open>The Archon client (archon/client.py)\<close>

text \<open>
  What the client sees of an \<open>httpx.Response\<close>: the status code, the body as text, and
  what \<open>response.json()\<close> does (the decoded document, a \<open>Dict\<close> by the annotations of
  the client, or the exception of the decoder).
  A request is its method, its URL and its JSON body, if any.
\<close>

record response =
  resp_status_code :: int
  resp_text :: string
  resp_json :: "exn + (string, py_value) dict"

datatype http_method = GET | POST | PATCH

record request =
  req_method :: http_method
  req_url :: string
  req_json :: "py_value option"

text \<open>The underlying \<open>httpx.Client\<close>: a request gives a response or raises.\<close>

type_synonym transport = "request \<Rightarrow> exn + response"

text \<open>
  \<open>response.raise_for_status()\<close> of httpx raises \<open>HTTPStatusError\<close> for every response
  whose status is not 2xx.
\<close>

definition is_success :: "response \<Rightarrow> bool" where
  "is_success r = (200 \<le> resp_status_code r \<and> resp_status_code r \<le> 299)"

text \<open>
  \<open>_handle_response\<close>. The first handler is for the \<open>HTTPStatusError\<close> of
  \<open>raise_for_status\<close>, the second for whatever \<open>response.json()\<close> raised; an exception
  raised inside a handler leaves the function.
\<close>

definition handle_response :: "response \<Rightarrow> exn + (string, py_value) dict" where
  "handle_response r =
     (if \<not> is_success r then
        (if resp_status_code r = 404 then
           Inl (Exn AgentNotFoundError (''Agent not found: '' @ resp_text r))
         else
           Inl (Exn ArchonAPIError
                  (''API error: '' @ str_int (resp_status_code r) @ '' - '' @ resp_text r)))
      else
        (case resp_json r of
           Inl e \<Rightarrow> Inl (Exn ArchonAPIError (''Error processing response: '' @ exn_str e))
         | Inr data \<Rightarrow> Inr data))"

text \<open>
  The handlers shared by \<open>get_agent\<close>, \<open>invoke_agent\<close>, \<open>get_agent_metrics\<close> and
  \<open>update_agent_metadata\<close>: \<open>AgentNotFoundError\<close> is raised again as it is, every other
  exception becomes an \<open>ArchonAPIError\<close> whose text is \<open>what\<close>, a colon and \<open>str(e)\<close>.
\<close>

definition reraise_not_found :: "string \<Rightarrow> exn + 'a \<Rightarrow> exn + 'a" where
  "reraise_not_found what res =
     (case res of
        Inl e \<Rightarrow>
          (if exn_class e = AgentNotFoundError then Inl e
           else Inl (Exn ArchonAPIError (what @ '': '' @ exn_str e)))
      | Inr v \<Rightarrow> Inr v)"

text \<open>
  What every method does with its request: \<open>self.client.get/post/patch(...)\<close>, then
  \<open>_handle_response\<close> on the response.
\<close>

definition send :: "transport \<Rightarrow> request \<Rightarrow> exn + (string, py_value) dict" where
  "send http rq = (case http rq of Inl e \<Rightarrow> Inl e | Inr r \<Rightarrow> handle_response r)"

definition get_agent :: "transport \<Rightarrow> string \<Rightarrow> exn + (string, py_value) dict" where
  "get_agent http agent_id =
     reraise_not_found (''Error getting agent '' @ agent_id)
       (send http \<lparr> req_method = GET, req_url = ''/agents/'' @ agent_id, req_json = None \<rparr>)"

definition invoke_agent ::
  "transport \<Rightarrow> string \<Rightarrow> (string, py_value) dict \<Rightarrow> exn + (string, py_value) dict" where
  "invoke_agent http agent_id inputs =
     reraise_not_found (''Error invoking agent '' @ agent_id)
       (send http \<lparr> req_method = POST, req_url = ''/agents/'' @ agent_id @ ''/invoke'',
                     req_json = Some (PDict [(''inputs'', PDict inputs)]) \<rparr>)"

definition get_agent_metrics :: "transport \<Rightarrow> string \<Rightarrow> exn + (string, py_value) dict" where
  "get_agent_metrics http agent_id =
     reraise_not_found (''Error getting metrics for agent '' @ agent_id)
       (send http \<lparr> req_method = GET, req_url = ''/agents/'' @ agent_id @ ''/metrics'',
                     req_json = None \<rparr>)"


text \<open>\<open>raises c res\<close>: the call ended by raising an exception of exactly the class \<open>c\<close>.\<close>

definition raises :: "exc_class \<Rightarrow> exn + 'a \<Rightarrow> bool" where
  "raises c res = (case res of Inl e \<Rightarrow> exn_class e = c | Inr v \<Rightarrow> False)"

section \<open>The tester (archon_agent_tester.py)\<close>

text \<open>
  \<open>except C\<close> catches the instances of \<open>C\<close> and of its subclasses. Among the classes
  above, the tester's exceptions derive from \<open>ArchonAgentTesterError\<close> and pydantic's
  \<open>ValidationError\<close> derives from \<open>ValueError\<close>.
\<close>

definition is_subclass :: "exc_class \<Rightarrow> exc_class \<Rightarrow> bool" where
  "is_subclass c d =
     (c = d \<or> (d = ArchonAgentTesterError \<and> is_ArchonAgentTesterError c) \<or>
      (d = ValueError \<and> c = ValidationError))"

text \<open>
  The exception classes that the module binds by its import from \<open>core.exceptions\<close>; a
  name of a class that is not bound raises \<open>NameError\<close> where it is evaluated, be it in a
  \<open>raise\<close> statement or in an \<open>except\<close> clause.
\<close>

definition imported_exceptions :: "(string, exc_class) dict" where
  "imported_exceptions =
     [(''ArchonAgentTesterError'', ArchonAgentTesterError),
      (''ConfigurationError'', ConfigurationError),
      (''ArchonAPIError'', ArchonAPIError),
      (''OpenRouterAPIError'', OpenRouterAPIError),
      (''TestCaseNotFoundError'', TestCaseNotFoundError),
      (''TestSuiteNotFoundError'', TestSuiteNotFoundError),
      (''AgentNotFoundError'', AgentNotFoundError),
      (''TestExecutionError'', TestExecutionError),
      (''EvaluationError'', EvaluationError),
      (''ReportGenerationError'', ReportGenerationError)]"

definition exception_named :: "string \<Rightarrow> exn + exc_class" where
  "exception_named n =
     (case map_of imported_exceptions n of
        Some c \<Rightarrow> Inr c
      | None \<Rightarrow> Inl (Exn NameError (''name '' @ quote @ n @ quote @ '' is not defined'')))"

text \<open>\<open>d.update(other)\<close>: every item of \<open>other\<close> is stored into \<open>d\<close>, in order.\<close>

definition dict_update :: "('k, 'v) dict \<Rightarrow> ('k, 'v) dict \<Rightarrow> ('k, 'v) dict" where
  "dict_update d other = fold (\<lambda>(k, v) acc. AList.update k v acc) other d"

text \<open>\<open>d[k]\<close> raises \<open>KeyError\<close> on a missing key; its text is the quoted key.\<close>

definition dict_getitem :: "(string, 'v) dict \<Rightarrow> string \<Rightarrow> exn + 'v" where
  "dict_getitem d k =
     (case map_of d k of
        None \<Rightarrow> Inl (Exn KeyError (quote @ k @ quote))
      | Some v \<Rightarrow> Inr v)"

text \<open>
  \<open>str.capitalize()\<close> on ASCII text: the first character in upper case, the others in
  lower case.
\<close>

definition to_upper :: "char \<Rightarrow> char" where
  "to_upper c =
     (if (97::nat) \<le> of_char c \<and> of_char c \<le> (122::nat) then char_of (of_char c - (32::nat))
      else c)"

definition to_lower :: "char \<Rightarrow> char" where
  "to_lower c =
     (if (65::nat) \<le> of_char c \<and> of_char c \<le> (90::nat) then char_of (of_char c + (32::nat))
      else c)"

fun capitalize :: "string \<Rightarrow> string" where
  "capitalize [] = []"
| "capitalize (c # cs) = to_upper c # map to_lower cs"

text \<open>
  The report generator, as far as the tester touches it: its three registries.
\<close>

record report_generator =
  rg_test_cases :: "(string, TestCase) dict"
  rg_test_suites :: "(string, TestSuite) dict"
  rg_test_runs :: "(string, TestRun) dict"

text \<open>
  The state of an \<open>ArchonTester\<close>: its three registries, its execution engine (of a type
  \<open>'e\<close> that is not fixed here) and its report generator.
\<close>

record 'e ArchonTester =
  test_cases :: "(string, TestCase) dict"
  test_suites :: "(string, TestSuite) dict"
  test_runs :: "(string, TestRun) dict"
  execution_engine :: 'e
  report_generator :: report_generator

text \<open>
  The collaborators whose code is in other modules are parameters: the HTTP transport under
  the client, \<open>str\<close> on a value that is not a string, the three methods of the adapter that
  the tester calls, the three methods of the execution engine (each takes the engine and
  returns it), and \<open>generate_report\<close> of the report generator. A call returns a value or
  raises; a method called for its effect returns \<open>None\<close> or the exception it raised.
\<close>

record 'e collaborators =
  http_client :: transport
  str_value :: "py_value \<Rightarrow> string"
  generate_test_cases_for_agent :: "string \<Rightarrow> TestType \<Rightarrow> exn + TestCase list"
  create_test_suite :: "string \<Rightarrow> TestCase list \<Rightarrow> string \<Rightarrow> string \<Rightarrow> exn + TestSuite"
  update_agent_with_test_results :: "string \<Rightarrow> TestRun \<Rightarrow> exn option"
  register_test_case :: "TestCase \<Rightarrow> 'e \<Rightarrow> exn option \<times> 'e"
  register_test_suite :: "TestSuite \<Rightarrow> 'e \<Rightarrow> exn option \<times> 'e"
  execute_test_suite :: "string \<Rightarrow> string \<Rightarrow> 'e \<Rightarrow> (exn + TestRun) \<times> 'e"
  rg_generate_report ::
    "string \<Rightarrow> string \<Rightarrow> report_generator \<Rightarrow> (exn + string) \<times> report_generator"

text \<open>The registries are empty after \<open>__init__\<close>.\<close>

definition ArchonTester_init :: "'e \<Rightarrow> report_generator \<Rightarrow> 'e ArchonTester" where
  "ArchonTester_init engine rg =
     \<lparr> test_cases = [], test_suites = [], test_runs = [], execution_engine = engine,
       report_generator = rg \<rparr>"

text \<open>A value inside an f-string.\<close>

definition py_str :: "'e collaborators \<Rightarrow> py_value \<Rightarrow> string" where
  "py_str env v = (case v of PStr x \<Rightarrow> x | _ \<Rightarrow> str_value env v)"

subsection \<open>test_agent\<close>

text \<open>The loop that registers the generated test cases; it stops where a call raises.\<close>

fun register_cases ::
  "'e collaborators \<Rightarrow> TestCase list \<Rightarrow> 'e ArchonTester \<Rightarrow> exn option \<times> 'e ArchonTester" where
  "register_cases env [] s = (None, s)"
| "register_cases env (tc # tcs) s =
     (let s1 = s\<lparr> test_cases := AList.update (tc_id tc) tc (test_cases s) \<rparr>
      in case register_test_case env tc (execution_engine s1) of
           (Some e, eng) \<Rightarrow> (Some e, s1\<lparr> execution_engine := eng \<rparr>)
         | (None, eng) \<Rightarrow> register_cases env tcs (s1\<lparr> execution_engine := eng \<rparr>))"

text \<open>
  "Determine the test suite": from the name of a test type (\<open>Inl\<close>) or from a suite
  (\<open>Inr\<close>), with the agent that \<open>get_agent\<close> returned.
\<close>

definition determine_suite ::
  "'e collaborators \<Rightarrow> (string, py_value) dict \<Rightarrow> string \<Rightarrow> string + TestSuite \<Rightarrow>
   'e ArchonTester \<Rightarrow> (exn + TestSuite) \<times> 'e ArchonTester" where
  "determine_suite env agent agent_id test_suite s =
     (case test_suite of
        Inl type_name \<Rightarrow>
          (case TestType_of_value type_name of
             Inl e \<Rightarrow> (Inl e, s)
           | Inr test_type \<Rightarrow>
               (case generate_test_cases_for_agent env agent_id test_type of
                  Inl e \<Rightarrow> (Inl e, s)
                | Inr cases \<Rightarrow>
                    (case register_cases env cases s of
                       (Some e, s1) \<Rightarrow> (Inl e, s1)
                     | (None, s1) \<Rightarrow>
                         (case dict_getitem agent ''name'' of
                            Inl e \<Rightarrow> (Inl e, s1)
                          | Inr agent_name \<Rightarrow>
                              (case create_test_suite env agent_id cases
                                      (py_str env agent_name @ '' - '' @ capitalize type_name @
                                       '' Tests'')
                                      (capitalize type_name @ '' tests for '' @
                                       py_str env agent_name) of
                                 Inl e \<Rightarrow> (Inl e, s1)
                               | Inr suite \<Rightarrow>
                                   (let s2 = s1\<lparr> test_suites :=
                                                AList.update (suite_id suite) suite (test_suites s1) \<rparr>
                                    in case register_test_suite env suite (execution_engine s2) of
                                         (Some e, eng) \<Rightarrow> (Inl e, s2\<lparr> execution_engine := eng \<rparr>)
                                       | (None, eng) \<Rightarrow>
                                           (Inr suite, s2\<lparr> execution_engine := eng \<rparr>)))))))
      | Inr suite \<Rightarrow>
          (if \<not> dict_contains (test_suites s) (suite_id suite) then
             (let s1 = s\<lparr> test_suites := AList.update (suite_id suite) suite (test_suites s) \<rparr>
              in case register_test_suite env suite (execution_engine s1) of
                   (Some e, eng) \<Rightarrow> (Inl e, s1\<lparr> execution_engine := eng \<rparr>)
                 | (None, eng) \<Rightarrow> (Inr suite, s1\<lparr> execution_engine := eng \<rparr>))
           else (Inr suite, s)))"

text \<open>
  "Execute the test suite", "Store the test run", "Update the agent with the test results",
  and the \<open>return\<close>.
\<close>

definition execute_and_store ::
  "'e collaborators \<Rightarrow> string \<Rightarrow> TestSuite \<Rightarrow> 'e ArchonTester \<Rightarrow>
   (exn + TestRun) \<times> 'e ArchonTester" where
  "execute_and_store env agent_id suite s =
     (case execute_test_suite env (suite_id suite) agent_id (execution_engine s) of
        (Inl e, eng) \<Rightarrow> (Inl e, s\<lparr> execution_engine := eng \<rparr>)
      | (Inr test_run, eng) \<Rightarrow>
          (let s1 = s\<lparr> execution_engine := eng,
                       test_runs := AList.update (run_id test_run) test_run (test_runs s) \<rparr>
           in case update_agent_with_test_results env agent_id test_run of
                Some e \<Rightarrow> (Inl e, s1)
              | None \<Rightarrow> (Inr test_run, s1)))"

text \<open>The body of the \<open>try\<close> statement.\<close>

definition test_agent_try ::
  "'e collaborators \<Rightarrow> string \<Rightarrow> string + TestSuite \<Rightarrow> 'e ArchonTester \<Rightarrow>
   (exn + TestRun) \<times> 'e ArchonTester" where
  "test_agent_try env agent_id test_suite s =
     (case get_agent (http_client env) agent_id of
        Inl e \<Rightarrow> (Inl e, s)
      | Inr agent \<Rightarrow>
          (case determine_suite env agent agent_id test_suite s of
             (Inl e, s1) \<Rightarrow> (Inl e, s1)
           | (Inr suite, s1) \<Rightarrow> execute_and_store env agent_id suite s1))"

text \<open>\<open>test_agent\<close>: the \<open>try\<close> statement with its two handlers.\<close>

definition test_agent ::
  "'e collaborators \<Rightarrow> string \<Rightarrow> string + TestSuite \<Rightarrow> 'e ArchonTester \<Rightarrow>
   (exn + TestRun) \<times> 'e ArchonTester" where
  "test_agent env agent_id test_suite s =
     (case test_agent_try env agent_id test_suite s of
        (Inr test_run, s1) \<Rightarrow> (Inr test_run, s1)
      | (Inl e, s1) \<Rightarrow>
          (if is_subclass (exn_class e) AgentNotFoundError \<or>
              is_subclass (exn_class e) TestSuiteNotFoundError
           then (Inl e, s1)
           else (Inl (Exn ArchonAgentTesterError
                        (''Error testing agent '' @ agent_id @ '': '' @ exn_str e)), s1)))"

subsection \<open>generate_report\<close>

text \<open>
  The body of the \<open>try\<close> statement, for a run id (\<open>Inl\<close>) or a run (\<open>Inr\<close>). The class in
  the \<open>raise\<close> statement is looked up by its name when the statement runs.
\<close>

definition report_run ::
  "'e collaborators \<Rightarrow> TestRun \<Rightarrow> string \<Rightarrow> 'e ArchonTester \<Rightarrow> (exn + string) \<times> 'e ArchonTester" where
  "report_run env run_to_report format s =
     (let rg = report_generator s;
          rg1 = rg\<lparr> rg_test_cases := dict_update (rg_test_cases rg) (test_cases s),
                     rg_test_suites := dict_update (rg_test_suites rg) (test_suites s) \<rparr>;
          rg2 = rg1\<lparr> rg_test_runs :=
                       AList.update (run_id run_to_report) run_to_report (rg_test_runs rg1) \<rparr>
      in case rg_generate_report env (run_id run_to_report) format rg2 of
           (res, rg3) \<Rightarrow> (res, s\<lparr> report_generator := rg3 \<rparr>))"

definition generate_report_try ::
  "'e collaborators \<Rightarrow> string + TestRun \<Rightarrow> string \<Rightarrow> 'e ArchonTester \<Rightarrow>
   (exn + string) \<times> 'e ArchonTester" where
  "generate_report_try env test_run format s =
     (case test_run of
        Inl ident \<Rightarrow>
          (if \<not> dict_contains (test_runs s) ident then
             (case exception_named ''TestRunNotFoundError'' of
                Inl name_error \<Rightarrow> (Inl name_error, s)
              | Inr c \<Rightarrow> (Inl (Exn c (''Test run '' @ ident @ '' not found'')), s))
           else
             (case dict_getitem (test_runs s) ident of
                Inl e \<Rightarrow> (Inl e, s)
              | Inr run_to_report \<Rightarrow> report_run env run_to_report format s))
      | Inr run_to_report \<Rightarrow>
          (if \<not> dict_contains (test_runs s) (run_id run_to_report) then
             report_run env run_to_report format
               (s\<lparr> test_runs :=
                     AList.update (run_id run_to_report) run_to_report (test_runs s) \<rparr>)
           else report_run env run_to_report format s))"

text \<open>
  \<open>generate_report\<close>: the \<open>try\<close> statement with its handlers. When the body raises, the
  first \<open>except\<close> clause evaluates the name of its class before it can match; an exception
  raised there leaves the function.
\<close>

definition generate_report ::
  "'e collaborators \<Rightarrow> string + TestRun \<Rightarrow> string \<Rightarrow> 'e ArchonTester \<Rightarrow>
   (exn + string) \<times> 'e ArchonTester" where
  "generate_report env test_run format s =
     (case generate_report_try env test_run format s of
        (Inr path, s1) \<Rightarrow> (Inr path, s1)
      | (Inl e, s1) \<Rightarrow>
          (case exception_named ''TestRunNotFoundError'' of
             Inl name_error \<Rightarrow> (Inl name_error, s1)
           | Inr c \<Rightarrow>
               (if is_subclass (exn_class e) c then (Inl e, s1)
                else (Inl (Exn ReportGenerationError
                             (''Error generating report: '' @ exn_str e)), s1))))"

subsection \<open>create_custom_test_case\<close>

text \<open>
  \<open>ident\<close> is the fresh \<open>str(uuid.uuid4())\<close>. The parameters \<open>evaluation_criteria\<close> and
  \<open>tags\<close> have the default \<open>None\<close>, so that leaving one out and giving \<open>None\<close> are the
  same call. The parameter \<open>timeout\<close> has the default 30: \<open>timeout_parameter\<close> is the
  value it is bound to, which is passed on to the constructor as it is. \<open>str\<close> on a float
  is the collaborators' \<open>str_value\<close>. The constructor's \<open>ValidationError\<close> is not caught.
\<close>

definition default_criteria :: "(string, py_value) dict" where
  "default_criteria =
     [(''response_not_empty'', PStr ''The agent should provide a non-empty response'')]"

definition timeout_parameter :: "int option arg \<Rightarrow> int option" where
  "timeout_parameter timeout = (case timeout of Omitted \<Rightarrow> Some 30 | Given t \<Rightarrow> t)"

definition float_str_of :: "'e collaborators \<Rightarrow> rat \<Rightarrow> string" where
  "float_str_of env q = str_value env (PFloat q)"

definition create_custom_test_case ::
  "'e collaborators \<Rightarrow> string \<Rightarrow> string \<Rightarrow> string \<Rightarrow> TestType \<Rightarrow> (string, py_value) dict \<Rightarrow>
   (string, py_value) dict option \<Rightarrow> (string, py_value) dict option \<Rightarrow> string list option \<Rightarrow>
   int option arg \<Rightarrow> 'e ArchonTester \<Rightarrow> (exn + TestCase) \<times> 'e ArchonTester" where
  "create_custom_test_case env ident name description test_type inputs expected_outputs
     evaluation_criteria tags timeout s =
     (let criteria = (case evaluation_criteria of None \<Rightarrow> default_criteria | Some c \<Rightarrow> c);
          tags1 = (case tags of None \<Rightarrow> [TestType_value test_type, ''custom''] | Some t \<Rightarrow> t)
      in case TestCase_new (float_str_of env) ident name description test_type inputs
                expected_outputs criteria (Given (Some tags1))
                (Given (timeout_parameter timeout)) of
           Inl e \<Rightarrow> (Inl e, s)
         | Inr test_case \<Rightarrow>
             (let s1 = s\<lparr> test_cases :=
                           AList.update (tc_id test_case) test_case (test_cases s) \<rparr>
              in case register_test_case env test_case (execution_engine s1) of
                   (Some e, eng) \<Rightarrow> (Inl e, s1\<lparr> execution_engine := eng \<rparr>)
                 | (None, eng) \<Rightarrow> (Inr test_case, s1\<lparr> execution_engine := eng \<rparr>)))"

section \<open>The adapter's write-back\<close>


section \<open>Example collaborators\<close>

text \<open>
  Concrete collaborators, to run the tester on: a transport that answers every request with
  the same response, an engine without state whose registrations return and whose execution
  returns \<open>example_run\<close>, and an adapter whose write-back ends as \<open>outcome\<close> says.
\<close>

definition respond_always :: "response \<Rightarrow> transport" where
  "respond_always r rq = Inr r"

definition agent_response :: response where
  "agent_response =
     \<lparr> resp_status_code = 200, resp_text = ''ok'', resp_json = Inr [(''name'', PStr ''Echo'')] \<rparr>"

definition missing_response :: response where
  "missing_response =
     \<lparr> resp_status_code = 404, resp_text = ''no such agent'', resp_json = Inr [] \<rparr>"

definition failing_response :: response where
  "failing_response =
     \<lparr> resp_status_code = 500, resp_text = ''boom'', resp_json = Inr [] \<rparr>"

definition example_suite :: TestSuite where
  "example_suite =
     \<lparr> suite_id = ''suite-1'', suite_name = ''Echo - Functional Tests'',
       suite_description = ''Functional tests for Echo'', suite_test_cases = [''tc-1''],
       suite_tags = [], suite_created_at = 0, suite_updated_at = 0 \<rparr>"

definition example_run :: TestRun where
  "example_run =
     TestRun_new ''run-1'' ''a1'' ''suite-1'' PASSED 0 (Some 2000000) (Some [''r1''])
       (Some [(''total'', 1), (''pending'', 0), (''passed'', 1), (''failed'', 0), (''error'', 0),
              (''skipped'', 0)])"

definition example_env :: "exn option \<Rightarrow> response \<Rightarrow> unit collaborators" where
  "example_env outcome r =
     \<lparr> http_client = respond_always r,
       str_value = (\<lambda>v. ''?''),
       generate_test_cases_for_agent = (\<lambda>agent_id test_type. Inr []),
       create_test_suite = (\<lambda>agent_id cases name description. Inr example_suite),
       update_agent_with_test_results = (\<lambda>agent_id test_run. outcome),
       register_test_case = (\<lambda>test_case engine. (None, engine)),
       register_test_suite = (\<lambda>suite engine. (None, engine)),
       execute_test_suite = (\<lambda>suite_ident agent_id engine. (Inr example_run, engine)),
       rg_generate_report = (\<lambda>run_ident format rg. (Inr ''report.json'', rg)) \<rparr>"




definition empty_report_generator :: report_generator where
  "empty_report_generator = \<lparr> rg_test_cases = [], rg_test_suites = [], rg_test_runs = [] \<rparr>"

definition fresh_tester :: "unit ArchonTester" where
  "fresh_tester = ArchonTester_init () empty_report_generator"


section \<open>Properties of the domain model\<close>

lemma validate_items_errors:
  "fst (validate_items vf field items errors result) = [] \<Longrightarrow> errors = []"
proof (induction items arbitrary: errors result)
  case Nil
  then show ?case by simp
next
  case (Cons p items)
  obtain k v where p: "p = (k, v)"
    by (cases p)
  show ?case
  proof (cases "vf [field, k] v")
    case (Inl e)
    with Cons.prems p have "fst (validate_items vf field items (errors @ [e]) result) = []"
      by simp
    then have "errors @ [e] = []"
      by (rule Cons.IH)
    then show ?thesis
      by simp
  next
    case (Inr x)
    with Cons.prems p have "fst (validate_items vf field items errors (AList.update k x result)) = []"
      by simp
    then show ?thesis
      by (rule Cons.IH)
  qed
qed

lemma update_nonempty: "AList.update k x r \<noteq> []"
  by (cases r) auto

lemma validate_items_result:
  "result \<noteq> [] \<Longrightarrow> snd (validate_items vf field items errors result) \<noteq> []"
  by (induction items arbitrary: errors result) (auto split: sum.splits simp: update_nonempty)

lemma validate_mapping_nonempty:
  assumes "validate_mapping vf field items = Inr r"
  shows "r = [] \<longleftrightarrow> items = []"
proof (cases items)
  case Nil
  with assms show ?thesis
    by (simp add: validate_mapping_def)
next
  case (Cons p rest)
  obtain k v where p: "p = (k, v)"
    by (cases p)
  from assms have ok: "fst (validate_items vf field items [] []) = []"
    and r: "r = snd (validate_items vf field items [] [])"
    by (auto simp: validate_mapping_def split: prod.splits if_splits)
  show ?thesis
  proof (cases "vf [field, k] v")
    case (Inl e)
    with ok Cons p have "fst (validate_items vf field rest [e] []) = []"
      by simp
    then have "[e] = []"
      by (rule validate_items_errors)
    then show ?thesis
      by simp
  next
    case (Inr x)
    then have "snd (validate_items vf field items [] []) \<noteq> []"
      using Cons p validate_items_result [of "AList.update k x []" vf field rest "[]"]
      by (simp add: update_nonempty)
    with r Cons show ?thesis
      by simp
  qed
qed

lemma field_evaluation_criteria_empty:
  "field_evaluation_criteria fs [] =
     Inl [VError [''evaluation_criteria'']
            ''At least one evaluation criterion must be provided'' ''value_error'']"
  by (simp add: field_evaluation_criteria_def validate_mapping_def validate_criteria_def)

lemma field_evaluation_criteria_Inr:
  "field_evaluation_criteria fs crit = Inr vc \<Longrightarrow>
   validate_mapping (validate_criterion fs) ''evaluation_criteria'' crit = Inr vc \<and>
   vc \<noteq> [] \<and> crit \<noteq> []"
  by (auto simp: field_evaluation_criteria_def validate_criteria_def
        field_evaluation_criteria_empty split: sum.splits if_splits
        dest: validate_mapping_nonempty)

lemma TestCase_new_Inl:
  "errors_of (field_evaluation_criteria fs crit) \<noteq> [] \<Longrightarrow>
   raises ValidationError (TestCase_new fs i n d tt inp ex crit tags tmo)"
  by (auto simp: TestCase_new_def raises_def validation_error_def errors_of_def
        split: sum.splits)

lemma TestCase_new_Inr:
  "TestCase_new fs i n d tt inp ex crit tags tmo = Inr tc \<Longrightarrow>
   field_evaluation_criteria fs crit = Inr (tc_evaluation_criteria tc)"
  by (auto simp: TestCase_new_def split: sum.splits)

text \<open>
  What the validation of the fields does with single values: \<open>None\<close> is rejected as a
  criterion and as an input, a number given as a criterion is stored as its text, a list of
  texts is an input, and \<open>None\<close> is rejected as a timeout.
\<close>

lemma field_evaluation_criteria_none:
  "field_evaluation_criteria fs [(k, PNone)] =
     Inl [none_not_allowed [''evaluation_criteria'', k],
          none_not_allowed [''evaluation_criteria'', k],
          none_not_allowed [''evaluation_criteria'', k]]"
  by (simp add: field_evaluation_criteria_def validate_mapping_def validate_criterion_def)

lemma field_evaluation_criteria_float:
  "field_evaluation_criteria fs [(k, PFloat q)] = Inr [(k, CritStr (fs q))]"
  by (simp add: field_evaluation_criteria_def validate_mapping_def validate_criterion_def
        str_validator_def validate_criteria_def)

lemma field_inputs_none:
  "field_inputs fs [(k, PNone)] =
     Inl [none_not_allowed [''inputs'', k], none_not_allowed [''inputs'', k],
          none_not_allowed [''inputs'', k]]"
  by (simp add: field_inputs_def validate_mapping_def validate_input_def)

lemma field_inputs_texts:
  "field_inputs fs [(k, PList [PStr a, PStr b])] = Inr [(k, InList [a, b])]"
  by (simp add: field_inputs_def validate_mapping_def validate_input_def str_validator_def
        validate_str_list_def)

lemma field_timeout_none: "field_timeout (Given None) = Inl [none_not_allowed [''timeout'']]"
  by (simp add: field_timeout_def)

lemma TestCase_new_none_criterion:
  "raises ValidationError (TestCase_new fs i n d tt inp ex [(k, PNone)] tags tmo)"
  by (rule TestCase_new_Inl) (simp add: field_evaluation_criteria_none errors_of_def)

text \<open>
  C3. Constructing a TestCase with an empty \<open>evaluation_criteria\<close> mapping fails with a
  validation error. With at least one criterion and otherwise valid fields (every field is
  accepted by the validation of its type) the construction succeeds: the test case holds the
  validated fields, and its criteria are not empty.
\<close>

theorem TestCase_new_criteria:
  "(crit = [] \<longrightarrow> raises ValidationError (TestCase_new fs i n d tt inp ex crit tags tmo)) \<and>
   (crit \<noteq> [] \<and>
    field_inputs fs inp = Inr vi \<and>
    field_expected_outputs fs ex = Inr ve \<and>
    validate_mapping (validate_criterion fs) ''evaluation_criteria'' crit = Inr vc \<and>
    field_tags tags = Inr vt \<and>
    field_timeout tmo = Inr vtm \<longrightarrow>
      TestCase_new fs i n d tt inp ex crit tags tmo =
        Inr \<lparr> tc_id = i, tc_name = n, tc_description = d, tc_test_type = tt, tc_inputs = vi,
              tc_expected_outputs = ve, tc_evaluation_criteria = vc, tc_tags = vt,
              tc_timeout = vtm \<rparr> \<and>
      vc \<noteq> [])"
proof -
  have a: "raises ValidationError (TestCase_new fs i n d tt inp ex [] tags tmo)"
    by (rule TestCase_new_Inl) (simp add: field_evaluation_criteria_empty errors_of_def)
  have b: "TestCase_new fs i n d tt inp ex crit tags tmo =
        Inr \<lparr> tc_id = i, tc_name = n, tc_description = d, tc_test_type = tt, tc_inputs = vi,
              tc_expected_outputs = ve, tc_evaluation_criteria = vc, tc_tags = vt,
              tc_timeout = vtm \<rparr> \<and> vc \<noteq> []"
    if "crit \<noteq> []" "field_inputs fs inp = Inr vi" "field_expected_outputs fs ex = Inr ve"
      "validate_mapping (validate_criterion fs) ''evaluation_criteria'' crit = Inr vc"
      "field_tags tags = Inr vt" "field_timeout tmo = Inr vtm"
  proof -
    have ne: "vc \<noteq> []"
      using that(1,4) validate_mapping_nonempty by blast
    then have "field_evaluation_criteria fs crit = Inr vc"
      using that(4) by (simp add: field_evaluation_criteria_def validate_criteria_def)
    then show ?thesis
      using that ne by (simp add: TestCase_new_def)
  qed
  show ?thesis
    using a b by blast
qed


theorem TestCase_new_criteria_witness:
  "raises ValidationError
     (TestCase_new (float_str_of (example_env None agent_response)) ''tc1'' ''greets''
        ''says hello'' FUNCTIONAL [(''prompt'', PStr ''hi'')] None [] Omitted Omitted) \<and>
   TestCase_new (float_str_of (example_env None agent_response)) ''tc1'' ''greets''
     ''says hello'' FUNCTIONAL [(''prompt'', PStr ''hi'')] None
     [(''response_not_empty'', PStr ''non-empty'')] Omitted Omitted
     = Inr \<lparr> tc_id = ''tc1'', tc_name = ''greets'', tc_description = ''says hello'',
             tc_test_type = FUNCTIONAL, tc_inputs = [(''prompt'', InStr ''hi'')],
             tc_expected_outputs = None,
             tc_evaluation_criteria = [(''response_not_empty'', CritStr ''non-empty'')],
             tc_tags = [], tc_timeout = 30 \<rparr>"
proof -
  let ?fs = "float_str_of (example_env None agent_response)"
  have i: "field_inputs ?fs [(''prompt'', PStr ''hi'')] = Inr [(''prompt'', InStr ''hi'')]"
    by (simp add: field_inputs_def validate_mapping_def validate_input_def str_validator_def)
  have e: "field_expected_outputs ?fs None = Inr None"
    by (simp add: field_expected_outputs_def)
  have c: "validate_mapping (validate_criterion ?fs) ''evaluation_criteria''
             [(''response_not_empty'', PStr ''non-empty'')]
           = Inr [(''response_not_empty'', CritStr ''non-empty'')]"
    by (simp add: validate_mapping_def validate_criterion_def str_validator_def)
  have t: "field_tags Omitted = Inr []"
    by (simp add: field_tags_def)
  have m: "field_timeout Omitted = Inr 30"
    by (simp add: field_timeout_def)
  show ?thesis
    using i e c t m
      TestCase_new_criteria [of "[]" ?fs "''tc1''" "''greets''" "''says hello''" FUNCTIONAL
        "[(''prompt'', PStr ''hi'')]" None Omitted Omitted]
      TestCase_new_criteria [of "[(''response_not_empty'', PStr ''non-empty'')]" ?fs "''tc1''"
        "''greets''" "''says hello''" FUNCTIONAL "[(''prompt'', PStr ''hi'')]" None Omitted
        Omitted "[(''prompt'', InStr ''hi'')]" None
        "[(''response_not_empty'', CritStr ''non-empty'')]" "[]" 30]
    by simp
qed

text \<open>
  C10. A TestRun constructed with an empty results list and no explicit summary has the empty
  mapping as its summary: neither \<open>total\<close> nor any status name is a key of it.
\<close>

theorem TestRun_new_empty_summary:
  "run_summary (TestRun_new i a s st t0 t1 (Some []) None) = [] \<and>
   run_summary (TestRun_new i a s st t0 t1 None None) = [] \<and>
   \<not> dict_contains (run_summary (TestRun_new i a s st t0 t1 (Some []) None)) ''total'' \<and>
   \<not> dict_contains (run_summary (TestRun_new i a s st t0 t1 (Some []) None)) ''pending'' \<and>
   \<not> dict_contains (run_summary (TestRun_new i a s st t0 t1 (Some []) None)) ''passed'' \<and>
   \<not> dict_contains (run_summary (TestRun_new i a s st t0 t1 (Some []) None)) ''failed'' \<and>
   \<not> dict_contains (run_summary (TestRun_new i a s st t0 t1 (Some []) None)) ''error'' \<and>
   \<not> dict_contains (run_summary (TestRun_new i a s st t0 t1 (Some []) None)) ''skipped''"
  by (simp add: TestRun_new_def calculate_summary_def dict_contains_def)

text \<open>
  C1, as the code has it. For a TestRun constructed with a non-empty results list and no
  explicit summary, \<open>summary["total"]\<close> is the length of the results list and every
  per-status count (pending, passed, failed, error, skipped) is 0, so that the counts add up
  to 0.
\<close>

theorem TestRun_new_default_summary:
  "results \<noteq> [] \<Longrightarrow>
   map_of (run_summary (TestRun_new i a s st t0 t1 (Some results) None)) ''total''
     = Some (int (length results)) \<and>
   map_of (run_summary (TestRun_new i a s st t0 t1 (Some results) None)) ''pending'' = Some 0 \<and>
   map_of (run_summary (TestRun_new i a s st t0 t1 (Some results) None)) ''passed'' = Some 0 \<and>
   map_of (run_summary (TestRun_new i a s st t0 t1 (Some results) None)) ''failed'' = Some 0 \<and>
   map_of (run_summary (TestRun_new i a s st t0 t1 (Some results) None)) ''error'' = Some 0 \<and>
   map_of (run_summary (TestRun_new i a s st t0 t1 (Some results) None)) ''skipped'' = Some 0 \<and>
   sum_counts (run_summary (TestRun_new i a s st t0 t1 (Some results) None)) status_names
     = Some 0"
  by (simp add: TestRun_new_def calculate_summary_def status_names_def)

theorem TestRun_new_default_summary_witness:
  "[''r1'', ''r2''] \<noteq> [] \<and>
   map_of (run_summary (TestRun_new ''run1'' ''agent1'' ''suite1'' PASSED 0 None
             (Some [''r1'', ''r2'']) None)) ''total'' = Some 2 \<and>
   sum_counts (run_summary (TestRun_new ''run1'' ''agent1'' ''suite1'' PASSED 0 None
             (Some [''r1'', ''r2'']) None)) status_names = Some 0"
  using TestRun_new_default_summary [of "[''r1'', ''r2'']" "''run1''" "''agent1''" "''suite1''"
          PASSED 0 None]
  by simp

text \<open>
  C1, as the specification states it, fails: for the run with the single result \<open>r1\<close> and no
  explicit summary, the total is 1 and the per-status counts add up to 0.
\<close>

theorem TestRun_summary_counterexample:
  "map_of (run_summary (TestRun_new ''run1'' ''agent1'' ''suite1'' PASSED 0 None
             (Some [''r1'']) None)) ''total'' = Some 1 \<and>
   sum_counts (run_summary (TestRun_new ''run1'' ''agent1'' ''suite1'' PASSED 0 None
             (Some [''r1'']) None)) status_names = Some 0 \<and>
   sum_counts (run_summary (TestRun_new ''run1'' ''agent1'' ''suite1'' PASSED 0 None
             (Some [''r1'']) None)) status_names
     \<noteq> map_of (run_summary (TestRun_new ''run1'' ''agent1'' ''suite1'' PASSED 0 None
             (Some [''r1'']) None)) ''total''"
  by (simp add: TestRun_new_def calculate_summary_def status_names_def)

subsection \<open>TestResult: end time and duration\<close>

lemma round_half_even_nonneg: "0 \<le> q \<Longrightarrow> 0 \<le> round_half_even q"
  by (auto simp: round_half_even_def Let_def)

lemma to_double_nonneg: "0 \<le> q \<Longrightarrow> 0 \<le> to_double q"
  by (auto simp: to_double_def Let_def round_half_even_nonneg intro!: mult_nonneg_nonneg)

lemma py_int_nonneg: "0 \<le> q \<Longrightarrow> 0 \<le> py_int q"
  by (simp add: py_int_def)

lemma elapsed_ms_nonneg: "start \<le> end \<Longrightarrow> 0 \<le> elapsed_ms start end"
  unfolding elapsed_ms_def total_seconds_def
  by (intro to_double_nonneg mult_nonneg_nonneg divide_nonneg_nonneg) auto

text \<open>
  The rounding at work: one tenth becomes the float \<open>0x1.999999999999ap-4\<close>, and the sum
  of the floats for 0.1 and 0.2 is not the float for 0.3.
\<close>

lemma to_double_one_tenth: "to_double (1 / 10) = 3602879701896397 / 36028797018963968"
  by code_simp

lemma to_double_sum_tenths:
  "to_double (to_double (1 / 10) + to_double (2 / 10)) \<noteq> to_double (3 / 10)"
  by code_simp

lemma elapsed_ms_one_second_back: "elapsed_ms 2000000 1000000 = - 1000"
  by code_simp

text \<open>
  Truncation and rounding differ on the code's own path: for 1.001 seconds the float product
  is just below 1001, so that \<open>int\<close> gives 1000 where \<open>round\<close> gives 1001.
\<close>

lemma truncation_is_not_rounding:
  "py_int (elapsed_ms 0 1001000) = 1000 \<and> py_round (elapsed_ms 0 1001000) = 1001"
  by code_simp

text \<open>
  C2, as the code has it. A TestResult constructed with a status other than pending and
  running has its end time set: to the end time given, else to the clock's reading at the
  construction. When it is constructed without an explicit \<open>duration_ms\<close> and its end time
  is set, \<open>duration_ms\<close> is \<open>int((end_time - start_time).total_seconds() * 1000)\<close>,
  truncated toward zero, and it is not negative when the end time is not before the start
  time.
\<close>

theorem TestResult_new_end_time_duration:
  "(status \<noteq> PENDING \<and> status \<noteq> RUNNING \<longrightarrow>
      res_end_time (TestResult_new now tc ag status start end dur inp out m er lg)
        = Some (case end of None \<Rightarrow> now | Some given \<Rightarrow> given)) \<and>
   (res_end_time (TestResult_new now tc ag status start end None inp out m er lg) = Some e \<longrightarrow>
      res_duration_ms (TestResult_new now tc ag status start end None inp out m er lg)
        = Some (py_int (elapsed_ms start e)) \<and>
      (start \<le> e \<longrightarrow> 0 \<le> py_int (elapsed_ms start e)))"
  by (auto simp: TestResult_new_def set_end_time_def calculate_duration_def Let_def
        py_int_nonneg elapsed_ms_nonneg split: option.splits)

theorem TestResult_new_end_time_duration_witness:
  "res_end_time (TestResult_new 5000000 ''tc1'' ''agent1'' PASSED 3000000 None None [] None
      None None None) = Some 5000000 \<and>
   res_duration_ms (TestResult_new 5000000 ''tc1'' ''agent1'' PASSED 3000000 None None [] None
      None None None) = Some 2000 \<and>
   res_end_time (TestResult_new 5000000 ''tc1'' ''agent1'' FAILED 3000000 (Some 4000000) None []
      None None None None) = Some 4000000 \<and>
   res_duration_ms (TestResult_new 5000000 ''tc1'' ''agent1'' FAILED 3000000 (Some 4000000) None
      [] None None None None) = Some 1000"
proof -
  have v: "py_int (elapsed_ms 3000000 5000000) = 2000"
    by code_simp
  have w: "py_int (elapsed_ms 3000000 4000000) = 1000"
    by code_simp
  show ?thesis
    using v w
      TestResult_new_end_time_duration [of PASSED 5000000 "''tc1''" "''agent1''" 3000000
        None None "[]" None None None None 5000000]
      TestResult_new_end_time_duration [of FAILED 5000000 "''tc1''" "''agent1''" 3000000
        "Some 4000000" None "[]" None None None None 4000000]
    by simp
qed

text \<open>
  C2, as the specification states it, fails: a result whose end time lies one second before
  its start time has both times set and a negative duration.
\<close>

theorem TestResult_duration_counterexample:
  "res_end_time (TestResult_new 9000000 ''tc1'' ''agent1'' PASSED 2000000 (Some 1000000) None []
      None None None None) = Some 1000000 \<and>
   res_duration_ms (TestResult_new 9000000 ''tc1'' ''agent1'' PASSED 2000000 (Some 1000000) None
      [] None None None None) = Some (- 1000) \<and>
   \<not> (0::int) \<le> - 1000"
  by (simp add: TestResult_new_def set_end_time_def calculate_duration_def Let_def
        elapsed_ms_one_second_back py_int_def)

section \<open>Properties of the Archon client\<close>

lemma sublist_middle: "sublist x (a @ x @ b)"
  by (auto simp: sublist_def)

lemma sublist_suffix: "sublist x (a @ x)"
  using sublist_middle [of x a "[]"] by simp

lemma handle_response_404:
  "resp_status_code r = 404 \<Longrightarrow>
   handle_response r = Inl (Exn AgentNotFoundError (''Agent not found: '' @ resp_text r))"
  by (simp add: handle_response_def is_success_def)

lemma handle_response_error:
  "\<not> is_success r \<Longrightarrow> resp_status_code r \<noteq> 404 \<Longrightarrow>
   handle_response r =
     Inl (Exn ArchonAPIError (''API error: '' @ str_int (resp_status_code r) @ '' - '' @ resp_text r))"
  by (simp add: handle_response_def)

lemma handle_response_not_found_iff:
  "raises AgentNotFoundError (handle_response r) \<longleftrightarrow> resp_status_code r = 404"
  by (auto simp: handle_response_def raises_def is_success_def split: sum.splits)

lemma raises_reraise_not_found:
  "raises AgentNotFoundError (reraise_not_found p res) \<longleftrightarrow> raises AgentNotFoundError res"
  by (auto simp: reraise_not_found_def raises_def split: sum.splits)

lemma api_error_text:
  "sublist (str_int code) (p @ '': '' @ ''API error: '' @ str_int code @ '' - '' @ body) \<and>
   sublist body (p @ '': '' @ ''API error: '' @ str_int code @ '' - '' @ body)"
proof
  have "p @ '': '' @ ''API error: '' @ str_int code @ '' - '' @ body
        = (p @ '': API error: '') @ str_int code @ ('' - '' @ body)"
    by simp
  then show "sublist (str_int code)
      (p @ '': '' @ ''API error: '' @ str_int code @ '' - '' @ body)"
    using sublist_middle [of "str_int code" "p @ '': API error: ''" "'' - '' @ body"] by simp
next
  have "p @ '': '' @ ''API error: '' @ str_int code @ '' - '' @ body
        = (p @ '': API error: '' @ str_int code @ '' - '') @ body"
    by simp
  then show "sublist body (p @ '': '' @ ''API error: '' @ str_int code @ '' - '' @ body)"
    using sublist_suffix [of body "p @ '': API error: '' @ str_int code @ '' - ''"] by simp
qed

text \<open>
  C8. When the HTTP client returns a response \<open>r\<close>, \<open>get_agent\<close> and \<open>invoke_agent\<close>
  raise \<open>AgentNotFoundError\<close> exactly when the status of \<open>r\<close> is 404; for every other
  status that is not 2xx they raise \<open>ArchonAPIError\<close>, and its message contains the decimal
  status code and the body of the response.
\<close>

theorem client_error_mapping:
  assumes "http \<lparr> req_method = GET, req_url = ''/agents/'' @ agent_id, req_json = None \<rparr>
             = Inr r"
    and "http \<lparr> req_method = POST, req_url = ''/agents/'' @ agent_id @ ''/invoke'',
                  req_json = Some (PDict [(''inputs'', PDict inputs)]) \<rparr> = Inr r"
  shows "(raises AgentNotFoundError (get_agent http agent_id) \<longleftrightarrow> resp_status_code r = 404) \<and>
         (raises AgentNotFoundError (invoke_agent http agent_id inputs)
            \<longleftrightarrow> resp_status_code r = 404) \<and>
         (\<not> is_success r \<and> resp_status_code r \<noteq> 404 \<longrightarrow>
            get_agent http agent_id =
              Inl (Exn ArchonAPIError
                     ((''Error getting agent '' @ agent_id) @ '': '' @ ''API error: '' @
                      str_int (resp_status_code r) @ '' - '' @ resp_text r)) \<and>
            invoke_agent http agent_id inputs =
              Inl (Exn ArchonAPIError
                     ((''Error invoking agent '' @ agent_id) @ '': '' @ ''API error: '' @
                      str_int (resp_status_code r) @ '' - '' @ resp_text r)) \<and>
            sublist (str_int (resp_status_code r)) (exn_str (projl (get_agent http agent_id))) \<and>
            sublist (resp_text r) (exn_str (projl (get_agent http agent_id))) \<and>
            sublist (str_int (resp_status_code r))
              (exn_str (projl (invoke_agent http agent_id inputs))) \<and>
            sublist (resp_text r) (exn_str (projl (invoke_agent http agent_id inputs))))"
proof -
  have g: "get_agent http agent_id =
      reraise_not_found (''Error getting agent '' @ agent_id) (handle_response r)"
    using assms(1) by (simp add: get_agent_def send_def)
  have i: "invoke_agent http agent_id inputs =
      reraise_not_found (''Error invoking agent '' @ agent_id) (handle_response r)"
    using assms(2) by (simp add: invoke_agent_def send_def)
  have c1: "raises AgentNotFoundError (get_agent http agent_id) \<longleftrightarrow> resp_status_code r = 404"
    unfolding g by (simp only: raises_reraise_not_found handle_response_not_found_iff)
  have c2: "raises AgentNotFoundError (invoke_agent http agent_id inputs)
      \<longleftrightarrow> resp_status_code r = 404"
    unfolding i by (simp only: raises_reraise_not_found handle_response_not_found_iff)
  have c3: "get_agent http agent_id =
      Inl (Exn ArchonAPIError
             ((''Error getting agent '' @ agent_id) @ '': '' @ ''API error: '' @
              str_int (resp_status_code r) @ '' - '' @ resp_text r))"
    if "\<not> is_success r" "resp_status_code r \<noteq> 404"
    unfolding g handle_response_error [OF that] by (simp add: reraise_not_found_def)
  have c4: "invoke_agent http agent_id inputs =
      Inl (Exn ArchonAPIError
             ((''Error invoking agent '' @ agent_id) @ '': '' @ ''API error: '' @
              str_int (resp_status_code r) @ '' - '' @ resp_text r))"
    if "\<not> is_success r" "resp_status_code r \<noteq> 404"
    unfolding i handle_response_error [OF that] by (simp add: reraise_not_found_def)
  show ?thesis
    using c1 c2 c3 c4
      api_error_text [of "resp_status_code r" "''Error getting agent '' @ agent_id" "resp_text r"]
      api_error_text [of "resp_status_code r" "''Error invoking agent '' @ agent_id" "resp_text r"]
    by (simp del: append_assoc)
qed

theorem client_error_mapping_witness:
  "get_agent (respond_always failing_response) ''a1''
     = Inl (Exn ArchonAPIError ''Error getting agent a1: API error: 500 - boom'') \<and>
   invoke_agent (respond_always failing_response) ''a1'' [(''prompt'', PStr ''hi'')]
     = Inl (Exn ArchonAPIError ''Error invoking agent a1: API error: 500 - boom'') \<and>
   raises AgentNotFoundError (get_agent (respond_always missing_response) ''a1'') \<and>
   raises AgentNotFoundError
     (invoke_agent (respond_always missing_response) ''a1'' [(''prompt'', PStr ''hi'')])"
proof -
  have code: "str_int 500 = ''500''"
    by code_simp
  have f: "\<not> is_success failing_response \<and> resp_status_code failing_response \<noteq> 404"
    by (simp add: is_success_def failing_response_def)
  have m: "resp_status_code missing_response = 404"
    by (simp add: missing_response_def)
  show ?thesis
    using f m code
      client_error_mapping [of "respond_always failing_response" "''a1''" failing_response
        "[(''prompt'', PStr ''hi'')]"]
      client_error_mapping [of "respond_always missing_response" "''a1''" missing_response
        "[(''prompt'', PStr ''hi'')]"]
    by (simp add: respond_always_def failing_response_def)
qed

section \<open>Properties of the tester\<close>

lemma is_subclass_not_found [simp]:
  "is_subclass c AgentNotFoundError \<longleftrightarrow> c = AgentNotFoundError"
  "is_subclass c TestSuiteNotFoundError \<longleftrightarrow> c = TestSuiteNotFoundError"
  by (auto simp: is_subclass_def)

lemma get_agent_example:
  "get_agent (http_client (example_env outcome agent_response)) ''a1''
     = Inr [(''name'', PStr ''Echo'')]"
  by (simp add: get_agent_def send_def example_env_def respond_always_def agent_response_def
        handle_response_def is_success_def reraise_not_found_def)

lemma get_agent_missing:
  "get_agent (http_client (example_env outcome missing_response)) ''a1''
     = Inl (Exn AgentNotFoundError ''Agent not found: no such agent'')"
  by (simp add: get_agent_def send_def example_env_def respond_always_def missing_response_def
        handle_response_def is_success_def reraise_not_found_def)

lemma determine_suite_example:
  "determine_suite (example_env outcome r) agent ''a1'' (Inr example_suite) fresh_tester
     = (Inr example_suite,
        fresh_tester\<lparr> test_suites := [(''suite-1'', example_suite)] \<rparr>)"
  by (simp add: determine_suite_def dict_contains_def fresh_tester_def ArchonTester_init_def
        example_env_def Let_def example_suite_def)

text \<open>
  C4. When \<open>get_agent\<close> raises \<open>AgentNotFoundError\<close> for the agent id, \<open>test_agent\<close>
  raises that same exception and leaves the tester as it was: the registry of test runs, and
  every other registry, is unchanged.
\<close>

theorem test_agent_unknown_agent:
  assumes "get_agent (http_client env) agent_id = Inl e"
    and "exn_class e = AgentNotFoundError"
  shows "test_agent env agent_id test_suite s = (Inl e, s) \<and>
         test_runs (snd (test_agent env agent_id test_suite s)) = test_runs s"
  using assms by (simp add: test_agent_def test_agent_try_def)

theorem test_agent_unknown_agent_witness:
  "test_agent (example_env None missing_response) ''a1'' (Inl ''functional'') fresh_tester
     = (Inl (Exn AgentNotFoundError ''Agent not found: no such agent''), fresh_tester) \<and>
   test_runs (snd (test_agent (example_env None missing_response) ''a1'' (Inl ''functional'')
     fresh_tester)) = []"
  using test_agent_unknown_agent [OF get_agent_missing [of None], of "Inl ''functional''"
      fresh_tester]
  by (simp add: fresh_tester_def ArchonTester_init_def)

lemma test_agent_example:
  "test_agent_try (example_env outcome agent_response) ''a1'' (Inr example_suite) fresh_tester
     = (case outcome of None \<Rightarrow> Inr example_run | Some e \<Rightarrow> Inl e,
        fresh_tester\<lparr> test_suites := [(''suite-1'', example_suite)],
                       test_runs := [(''run-1'', example_run)] \<rparr>)"
proof -
  have r: "run_id example_run = ''run-1''"
    by (simp add: example_run_def TestRun_new_def Let_def)
  have x: "execute_and_store (example_env outcome agent_response) ''a1'' example_suite
             (fresh_tester\<lparr> test_suites := [(''suite-1'', example_suite)] \<rparr>)
           = (case outcome of None \<Rightarrow> Inr example_run | Some e \<Rightarrow> Inl e,
              fresh_tester\<lparr> test_suites := [(''suite-1'', example_suite)],
                             test_runs := [(''run-1'', example_run)] \<rparr>)"
    by (simp add: execute_and_store_def example_env_def Let_def r fresh_tester_def
          ArchonTester_init_def split: option.splits)
  show ?thesis
    by (simp add: test_agent_try_def get_agent_example determine_suite_example x)
qed

text \<open>
  C7. Every exception that \<open>test_agent\<close> raises is an \<open>ArchonAgentTesterError\<close>: when
  the body of its \<open>try\<close> statement raises \<open>AgentNotFoundError\<close> or
  \<open>TestSuiteNotFoundError\<close>, that exception leaves \<open>test_agent\<close> unchanged; any other
  exception is replaced by an \<open>ArchonAgentTesterError\<close> whose message ends with the
  message of the original one.
\<close>

theorem test_agent_error_surface:
  "(test_agent_try env agent_id test_suite s = (Inl e, s1) \<longrightarrow>
      test_agent env agent_id test_suite s =
        (if exn_class e = AgentNotFoundError \<or> exn_class e = TestSuiteNotFoundError
         then (Inl e, s1)
         else (Inl (Exn ArchonAgentTesterError
                      (''Error testing agent '' @ agent_id @ '': '' @ exn_str e)), s1))) \<and>
   (test_agent env agent_id test_suite s = (Inl e2, s2) \<longrightarrow>
      is_ArchonAgentTesterError (exn_class e2))"
  by (auto simp: test_agent_def split: prod.splits sum.splits if_splits)

theorem test_agent_error_surface_witness:
  "test_agent (example_env (Some (Exn KeyError ''metrics'')) agent_response) ''a1''
     (Inr example_suite) fresh_tester
     = (Inl (Exn ArchonAgentTesterError ''Error testing agent a1: metrics''),
        fresh_tester\<lparr> test_suites := [(''suite-1'', example_suite)],
                       test_runs := [(''run-1'', example_run)] \<rparr>) \<and>
   is_ArchonAgentTesterError ArchonAgentTesterError"
  using test_agent_error_surface [of "example_env (Some (Exn KeyError ''metrics'')) agent_response"
      "''a1''" "Inr example_suite" fresh_tester "Exn KeyError ''metrics''"
      "fresh_tester\<lparr> test_suites := [(''suite-1'', example_suite)],
                      test_runs := [(''run-1'', example_run)] \<rparr>"]
    test_agent_example [of "Some (Exn KeyError ''metrics'')"]
  by simp







subsection \<open>generate_report\<close>

lemma exception_named_TestRunNotFoundError:
  "exception_named ''TestRunNotFoundError''
     = Inl (Exn NameError (''name '' @ quote @ ''TestRunNotFoundError'' @ quote @
                           '' is not defined''))"
  by (simp add: exception_named_def imported_exceptions_def)

lemma generate_report_unregistered:
  "\<not> dict_contains (test_runs s) ident \<Longrightarrow>
   generate_report env (Inl ident) format s
     = (Inl (Exn NameError (''name '' @ quote @ ''TestRunNotFoundError'' @ quote @
                            '' is not defined'')), s)"
  by (simp add: generate_report_def generate_report_try_def
        exception_named_TestRunNotFoundError)

text \<open>
  C5 on the code: \<open>generate_report\<close> with the id of a run that is not registered. The class
  \<open>TestRunNotFoundError\<close> that the \<open>raise\<close> statement names is neither defined in
  \<open>core/exceptions.py\<close> nor imported, so that the exception that leaves the function is a
  \<open>NameError\<close>; the tester is unchanged.
\<close>

theorem generate_report_unregistered_id:
  "generate_report env (Inl ''run-404'') ''json'' (ArchonTester_init engine rg)
     = (Inl (Exn NameError (''name '' @ quote @ ''TestRunNotFoundError'' @ quote @
                            '' is not defined'')),
        ArchonTester_init engine rg) \<and>
   exn_class (projl (fst (generate_report env (Inl ''run-404'') ''json''
                            (ArchonTester_init engine rg)))) = NameError"
proof -
  have "\<not> dict_contains (test_runs (ArchonTester_init engine rg)) ''run-404''"
    by (simp add: dict_contains_def ArchonTester_init_def)
  then show ?thesis
    by (simp add: generate_report_unregistered)
qed

subsection \<open>create_custom_test_case\<close>

lemma field_evaluation_criteria_default:
  "field_evaluation_criteria fs default_criteria
     = Inr [(''response_not_empty'', CritStr ''The agent should provide a non-empty response'')]"
  by (simp add: field_evaluation_criteria_def validate_mapping_def validate_criterion_def
        str_validator_def validate_criteria_def default_criteria_def)

lemma create_custom_test_case_Inr:
  "create_custom_test_case env ident name description test_type inputs expected criteria tags
     timeout s = (Inr tc, s1) \<Longrightarrow>
   TestCase_new (float_str_of env) ident name description test_type inputs expected
     (case criteria of None \<Rightarrow> default_criteria | Some c \<Rightarrow> c)
     (Given (Some (case tags of None \<Rightarrow> [TestType_value test_type, ''custom''] | Some t \<Rightarrow> t)))
     (Given (timeout_parameter timeout)) = Inr tc"
  by (auto simp: create_custom_test_case_def Let_def split: sum.splits prod.splits option.splits)

text \<open>
  C9. Called without evaluation criteria (\<open>None\<close>), \<open>create_custom_test_case\<close> puts the
  single default criterion \<open>response_not_empty\<close> in their place and succeeds: when the
  other arguments are valid and the engine's registration returns, it returns the test case
  with that criterion and registers it. Called with the empty mapping, it raises the
  validation error of the TestCase constructor and changes nothing. Every test case it
  returns has non-empty criteria.
\<close>

theorem create_custom_test_case_criteria:
  "(field_inputs (float_str_of env) inputs = Inr vi \<and>
    field_expected_outputs (float_str_of env) expected = Inr ve \<and>
    timeout_parameter timeout = Some vt \<and>
    register_test_case env
      \<lparr> tc_id = ident, tc_name = name, tc_description = description, tc_test_type = test_type,
        tc_inputs = vi, tc_expected_outputs = ve,
        tc_evaluation_criteria =
          [(''response_not_empty'', CritStr ''The agent should provide a non-empty response'')],
        tc_tags = (case tags of None \<Rightarrow> [TestType_value test_type, ''custom''] | Some t \<Rightarrow> t),
        tc_timeout = vt \<rparr>
      (execution_engine s) = (None, eng) \<longrightarrow>
    create_custom_test_case env ident name description test_type inputs expected None tags
        timeout s
      = (Inr \<lparr> tc_id = ident, tc_name = name, tc_description = description,
               tc_test_type = test_type, tc_inputs = vi, tc_expected_outputs = ve,
               tc_evaluation_criteria =
                 [(''response_not_empty'',
                   CritStr ''The agent should provide a non-empty response'')],
               tc_tags = (case tags of None \<Rightarrow> [TestType_value test_type, ''custom'']
                          | Some t \<Rightarrow> t),
               tc_timeout = vt \<rparr>,
         s\<lparr> test_cases :=
               AList.update ident
                 \<lparr> tc_id = ident, tc_name = name, tc_description = description,
                   tc_test_type = test_type, tc_inputs = vi, tc_expected_outputs = ve,
                   tc_evaluation_criteria =
                     [(''response_not_empty'',
                       CritStr ''The agent should provide a non-empty response'')],
                   tc_tags = (case tags of None \<Rightarrow> [TestType_value test_type, ''custom'']
                              | Some t \<Rightarrow> t),
                   tc_timeout = vt \<rparr>
                 (test_cases s),
            execution_engine := eng \<rparr>)) \<and>
   raises ValidationError
     (fst (create_custom_test_case env ident name description test_type inputs expected
             (Some []) tags timeout s)) \<and>
   snd (create_custom_test_case env ident name description test_type inputs expected (Some [])
          tags timeout s) = s \<and>
   (create_custom_test_case env ident name description test_type inputs expected criteria tags
       timeout s = (Inr tc, s1) \<longrightarrow> tc_evaluation_criteria tc \<noteq> [])"
proof -
  let ?fs = "float_str_of env"
  let ?tags = "case tags of None \<Rightarrow> [TestType_value test_type, ''custom''] | Some t \<Rightarrow> t"
  let ?tc = "\<lparr> tc_id = ident, tc_name = name, tc_description = description,
               tc_test_type = test_type, tc_inputs = vi, tc_expected_outputs = ve,
               tc_evaluation_criteria =
                 [(''response_not_empty'',
                   CritStr ''The agent should provide a non-empty response'')],
               tc_tags = ?tags, tc_timeout = vt \<rparr>"
  have a: "create_custom_test_case env ident name description test_type inputs expected None
             tags timeout s
           = (Inr ?tc, s\<lparr> test_cases := AList.update ident ?tc (test_cases s),
                           execution_engine := eng \<rparr>)"
    if "field_inputs ?fs inputs = Inr vi" "field_expected_outputs ?fs expected = Inr ve"
      "timeout_parameter timeout = Some vt"
      "register_test_case env ?tc (execution_engine s) = (None, eng)"
  proof -
    have "TestCase_new ?fs ident name description test_type inputs expected default_criteria
            (Given (Some ?tags)) (Given (timeout_parameter timeout)) = Inr ?tc"
      using that(1-3)
      by (simp add: TestCase_new_def field_evaluation_criteria_default field_tags_def
            field_timeout_def)
    then show ?thesis
      using that(4) by (simp add: create_custom_test_case_def Let_def)
  qed
  have r: "raises ValidationError
             (TestCase_new ?fs ident name description test_type inputs expected []
                (Given (Some ?tags)) (Given (timeout_parameter timeout)))"
    by (rule TestCase_new_Inl) (simp add: field_evaluation_criteria_empty errors_of_def)
  have b: "raises ValidationError
             (fst (create_custom_test_case env ident name description test_type inputs expected
                     (Some []) tags timeout s)) \<and>
           snd (create_custom_test_case env ident name description test_type inputs expected
                  (Some []) tags timeout s) = s"
    using r by (auto simp: create_custom_test_case_def Let_def raises_def split: sum.splits)
  have c: "tc_evaluation_criteria tc \<noteq> []"
    if "create_custom_test_case env ident name description test_type inputs expected criteria
          tags timeout s = (Inr tc, s1)"
    using create_custom_test_case_Inr [OF that] TestCase_new_Inr field_evaluation_criteria_Inr
    by blast
  show ?thesis
    using a b c by blast
qed

theorem create_custom_test_case_criteria_witness:
  "fst (create_custom_test_case (example_env None agent_response) ''id-1'' ''greets''
          ''says hello'' CUSTOM [(''prompt'', PStr ''hi'')] None None None Omitted fresh_tester)
     = Inr \<lparr> tc_id = ''id-1'', tc_name = ''greets'', tc_description = ''says hello'',
             tc_test_type = CUSTOM, tc_inputs = [(''prompt'', InStr ''hi'')],
             tc_expected_outputs = None,
             tc_evaluation_criteria =
               [(''response_not_empty'',
                 CritStr ''The agent should provide a non-empty response'')],
             tc_tags = [''custom'', ''custom''], tc_timeout = 30 \<rparr> \<and>
   raises ValidationError
     (fst (create_custom_test_case (example_env None agent_response) ''id-1'' ''greets''
             ''says hello'' CUSTOM [(''prompt'', PStr ''hi'')] None (Some []) None Omitted
             fresh_tester))"
proof -
  let ?env = "example_env None agent_response"
  have i: "field_inputs (float_str_of ?env) [(''prompt'', PStr ''hi'')]
             = Inr [(''prompt'', InStr ''hi'')]"
    by (simp add: field_inputs_def validate_mapping_def validate_input_def str_validator_def)
  have e: "field_expected_outputs (float_str_of ?env) None = Inr None"
    by (simp add: field_expected_outputs_def)
  have t: "timeout_parameter Omitted = Some 30"
    by (simp add: timeout_parameter_def)
  have r: "register_test_case ?env tc (execution_engine fresh_tester) = (None, ())" for tc
    by (simp add: example_env_def)
  show ?thesis
    using i e t r
      create_custom_test_case_criteria [of ?env "[(''prompt'', PStr ''hi'')]"
        "[(''prompt'', InStr ''hi'')]" None None Omitted 30 "''id-1''" "''greets''"
        "''says hello''" CUSTOM None fresh_tester "()"]
    by simp
qed

text \<open>
  A timeout given as \<open>None\<close> is passed on to the constructor and rejected there, while a
  timeout left out is 30.
\<close>

lemma create_custom_test_case_timeout_none:
  "raises ValidationError
     (fst (create_custom_test_case env ident name description test_type inputs expected
             criteria tags (Given None) s))"
proof -
  let ?new = "TestCase_new (float_str_of env) ident name description test_type inputs expected
      (case criteria of None \<Rightarrow> default_criteria | Some c \<Rightarrow> c)
      (Given (Some (case tags of None \<Rightarrow> [TestType_value test_type, ''custom''] | Some t \<Rightarrow> t)))
      (Given None)"
  have "errors_of (field_timeout (Given None)) \<noteq> []"
    by (simp add: field_timeout_none errors_of_def)
  then have "raises ValidationError ?new"
    by (auto simp: TestCase_new_def raises_def validation_error_def errors_of_def
          split: sum.splits)
  then obtain x where x: "?new = Inl x" "exn_class x = ValidationError"
    by (auto simp: raises_def split: sum.splits)
  show ?thesis
    by (simp add: create_custom_test_case_def Let_def raises_def timeout_parameter_def x)
qed

end
